theory Spec2Isabelle
  imports Main "HOL-Library.Word"
begin

section \<open>The game server of lezhou8/shooter\<close>

text \<open>
  A shallow embedding of the server (the file with \<^verbatim>\<open>type server struct\<close>):
  the player slots, the handshake, the per-connection receive loop, the round
  controller and the periodic location snapshot.

  Conventions of the embedding.
  \<^item> A byte is an \<open>8 word\<close>; Go's \<open>int8(b)\<close> and \<open>byte(v)\<close> between the two
    8-bit types keep the bit pattern, so a position component is stored as the
    same \<open>8 word\<close>.
  \<^item> Go's \<open>int\<close> fields (id, health, round, the player counts) are \<open>int\<close>:
    they move by at most 255 per message, and no property below depends on
    64-bit wrap-around.
  \<^item> A \<^verbatim>\<open>*websocket.Conn\<close> is a \<open>connection option\<close>; \<open>None\<close> is \<open>nil\<close>.
  \<^item> The mutex and the broadcast channel are not state. A handler returns the
    list of its outputs in program order. The runs of the whole server
    interleave the steps of different handlers; the Hit handler, whose outcome
    depends on what runs between its lock regions, is also given piece by
    piece.
  \<^item> What the network decides (whether a read or a write fails, what bytes
    arrive) is an argument of the function that performs the call.
  \<^item> An index outside the six-element array, a method call through a nil
    connection and the websocket library's panic on repeated reads of a failed
    connection are run-time panics; they are the \<open>Inl\<close> results.
  \<^item> The record fields \<open>id\<close>, \<open>x\<close>, \<open>y\<close>, \<open>z\<close> of the source carry the suffix
    \<open>_p\<close>, and the team constants \<open>a\<close>, \<open>b\<close> are \<open>team_a\<close>, \<open>team_b\<close>.
\<close>

subsection \<open>Constants and wire headers\<close>

type_synonym byte = "8 word"
type_synonym connection = nat

definition maxPlayers :: nat where
  "maxPlayers = 6"

definition maxTeamPlayers :: nat where
  "maxTeamPlayers = drop_bit 1 maxPlayers"

definition nextRoundHeader :: byte where "nextRoundHeader = 0"
definition playerHeader :: byte where "playerHeader = 1"
definition locationsHeader :: byte where "locationsHeader = 2"
definition shotHeader :: byte where "shotHeader = 3"
definition killedHeader :: byte where "killedHeader = 4"
definition teamPointHeader :: byte where "teamPointHeader = 5"
definition loseHealthHeader :: byte where "loseHealthHeader = 6"
definition playerDisconnectHeader :: byte where "playerDisconnectHeader = 7"

definition hitMessage :: byte where "hitMessage = 0"
definition shotMessage :: byte where "shotMessage = 1"
definition locationMessage :: byte where "locationMessage = 2"

definition success :: byte where "success = 0"
definition failure :: byte where "failure = 1"

definition roundStartGraceTime :: nat where "roundStartGraceTime = 8"
definition roundEndGraceTime :: nat where "roundEndGraceTime = 8"
definition lastRound :: int where "lastRound = 10"
definition maxHealth :: int where "maxHealth = 3"
definition afterGameLingerTime :: nat where "afterGameLingerTime = 2"

subsection \<open>Players\<close>

datatype team = team_a | team_b

fun byte_of_team :: "team \<Rightarrow> byte" where
  "byte_of_team team_a = 0"
| "byte_of_team team_b = 1"

record player =
  id_p :: int
  health :: int
  team :: team
  conn :: "connection option"
  isAlive :: bool
  x_p :: byte
  y_p :: byte
  z_p :: byte

text \<open>The zero value \<^verbatim>\<open>player{}\<close>.\<close>

definition zeroPlayer :: player where
  "zeroPlayer = \<lparr>id_p = 0, health = 0, team = team_a, conn = None, isAlive = False,
     x_p = 0, y_p = 0, z_p = 0\<rparr>"

definition newPlayer :: "int \<Rightarrow> connection \<Rightarrow> player" where
  "newPlayer i c =
     zeroPlayer\<lparr>id_p := i,
                team := (if i < int maxTeamPlayers then team_a else team_b),
                conn := Some c\<rparr>"

definition isEmpty :: "player \<Rightarrow> bool" where
  "isEmpty p = (conn p = None)"

subsection \<open>Server state and outputs\<close>

record server =
  players :: "player list"
  teamAPoints :: int
  teamBPoints :: int
  round :: int
  numPlayers :: int
  currentNumPlayers :: int

definition newServer :: "int \<Rightarrow> server" where
  "newServer n =
     \<lparr>players = replicate maxPlayers zeroPlayer, teamAPoints = 0, teamBPoints = 0,
      round = 0, numPlayers = n, currentNumPlayers = 0\<rparr>"

text \<open>The function handed to \<^verbatim>\<open>time.AfterFunc\<close>.\<close>

datatype timer = NextRoundTimer | PlayTimer | ExitTimer

text \<open>
  An error value: one produced by the websocket library, or \<^verbatim>\<open>errors.New\<close> of a
  fixed text.
\<close>

datatype error = ConnError | ErrorsNew string

text \<open>
  What a handler does to the outside: a write on one connection, a message
  pushed on the broadcast channel, a timer started, an HTTP error reply, a log
  line.
\<close>

datatype effect =
    WriteMessage connection "byte list"
  | Broadcast "byte list"
  | AfterFunc nat timer
  | HttpError string nat
  | Log string
  | LogErr error

datatype stop = IndexOutOfRange | NilPointerDereference | RepeatedReadPanic | ProcessExit

definition index_ok :: "int \<Rightarrow> bool" where
  "index_ok i = (0 \<le> i \<and> i < int maxPlayers)"

subsection \<open>Round controller\<close>

fun allDead :: "player list \<Rightarrow> bool" where
  "allDead [] = True"
| "allDead (p # ps) = (if \<not> isEmpty p \<and> isAlive p then False else allDead ps)"

definition isTeamAAllDead :: "server \<Rightarrow> bool" where
  "isTeamAAllDead s = allDead (take maxTeamPlayers (players s))"

definition isTeamBAllDead :: "server \<Rightarrow> bool" where
  "isTeamBAllDead s = allDead (drop maxTeamPlayers (players s))"

definition resetPlayer :: "player \<Rightarrow> player" where
  "resetPlayer p = p\<lparr>health := maxHealth, isAlive := True\<rparr>"

definition nextRound :: "server \<Rightarrow> server \<times> effect list" where
  "nextRound s =
     (s\<lparr>players := map resetPlayer (players s), round := round s + 1\<rparr>,
      (if round s = lastRound then [AfterFunc afterGameLingerTime ExitTimer] else [])
      @ [Broadcast [nextRoundHeader], AfterFunc roundStartGraceTime PlayTimer])"

subsection \<open>Broadcast engine\<close>

text \<open>
  \<^verbatim>\<open>serialiseLocations\<close>: the buffer starts with the header byte; the loop over
  the slots skips an empty slot and appends the four bytes of a
  \<^verbatim>\<open>locationParcel{byte(player.id), player.x, player.y, player.z}\<close> otherwise. \<^verbatim>\<open>binary.Write\<close> into a \<^verbatim>\<open>bytes.Buffer\<close> of
  these fixed-size values does not fail, so the two \<^verbatim>\<open>return nil\<close> branches are
  not part of the model.
\<close>

definition locationParcel :: "player \<Rightarrow> byte list" where
  "locationParcel p = [word_of_int (id_p p), x_p p, y_p p, z_p p]"

fun writeParcels :: "byte list \<Rightarrow> player list \<Rightarrow> byte list" where
  "writeParcels buf [] = buf"
| "writeParcels buf (p # ps) =
     (if isEmpty p then writeParcels buf ps
      else writeParcels (buf @ locationParcel p) ps)"

definition serialiseLocations :: "server \<Rightarrow> byte list" where
  "serialiseLocations s = writeParcels [locationsHeader] (players s)"

text \<open>
  The two loops of \<^verbatim>\<open>run\<close> that write one message to every occupied slot;
  \<open>fails c\<close> says whether the write on connection \<open>c\<close> returns an error.
\<close>

fun writeAll :: "(connection \<Rightarrow> bool) \<Rightarrow> byte list \<Rightarrow> player list \<Rightarrow> effect list" where
  "writeAll fails m [] = []"
| "writeAll fails m (p # ps) =
     (case conn p of
        None \<Rightarrow> writeAll fails m ps
      | Some c \<Rightarrow>
          WriteMessage c m # (if fails c then [LogErr ConnError] else [])
          @ writeAll fails m ps)"

definition run_broadcast :: "(connection \<Rightarrow> bool) \<Rightarrow> server \<Rightarrow> byte list \<Rightarrow> effect list" where
  "run_broadcast fails s broadcastMessage = writeAll fails broadcastMessage (players s)"

definition run_ticker :: "(connection \<Rightarrow> bool) \<Rightarrow> server \<Rightarrow> effect list" where
  "run_ticker fails s =
     (if round s = 0 then []
      else writeAll fails (serialiseLocations s) (players s))"

subsection \<open>Handshake\<close>

text \<open>
  \<^verbatim>\<open>initialisePlayer\<close>: \<open>rd\<close> is the result of the first \<^verbatim>\<open>ReadMessage\<close>
  (\<open>None\<close> for an error), \<open>writeOk\<close> whether the write of the success byte
  succeeds. The result is the new server state, the returned player, the
  returned error and the outputs.
\<close>

definition initialisePlayer ::
  "server \<Rightarrow> connection \<Rightarrow> byte list option \<Rightarrow> bool
     \<Rightarrow> server \<times> player \<times> error option \<times> effect list" where
  "initialisePlayer s c rd writeOk =
     (case rd of
        None \<Rightarrow> (s, zeroPlayer, Some ConnError, [])
      | Some idMessage \<Rightarrow>
          if length idMessage \<noteq> 1 \<or> idMessage ! 0 < 0 \<or> idMessage ! 0 > 5
          then (s, zeroPlayer, Some (ErrorsNew ''Badly formed ID team message''),
                [WriteMessage c [failure]])
          else
            let i = uint (idMessage ! 0) in
            if \<not> isEmpty (players s ! nat i)
            then (s, zeroPlayer, Some (ErrorsNew ''Player slot is taken''),
                  [WriteMessage c [failure]])
            else
              let s' = s\<lparr>players := (players s)[nat i := newPlayer i c],
                         currentNumPlayers := currentNumPlayers s + 1\<rparr>
              in if writeOk
                 then (s', newPlayer i c, None, [WriteMessage c [success]])
                 else (s', newPlayer i c, Some ConnError, [WriteMessage c [success]]))"

text \<open>
  \<^verbatim>\<open>serveWs\<close> up to the communication loop. \<open>upgradeOk\<close> is the outcome of
  \<^verbatim>\<open>upgrader.Upgrade\<close>, which yields connection \<open>c\<close>. The third component of the
  result is \<open>Some newPlayer\<close> when the handler goes on into the loop and
  \<open>None\<close> when it has returned.
\<close>

definition serveWs_accept ::
  "server \<Rightarrow> bool \<Rightarrow> connection \<Rightarrow> byte list option \<Rightarrow> bool
     \<Rightarrow> server \<times> effect list \<times> player option" where
  "serveWs_accept s upgradeOk c rd writeOk =
     (if numPlayers s \<le> currentNumPlayers s
      then (s, [HttpError ''Lobby is full'' 403], None)
      else if round s > 0
      then (s, [HttpError ''Game is in progress'' 403], None)
      else if \<not> upgradeOk
      then (s, [LogErr ConnError], None)
      else
        (case initialisePlayer s c rd writeOk of
           (s1, np, Some e, out) \<Rightarrow> (s1, out @ [LogErr e], None)
         | (s1, np, None, out) \<Rightarrow>
             if currentNumPlayers s1 = numPlayers s1
             then (fst (nextRound s1), out @ snd (nextRound s1), Some np)
             else (s1, out, Some np)))"

subsection \<open>Message router\<close>

text \<open>
  The body of \<^verbatim>\<open>case byte(hitMessage)\<close> for a message of length 3, with its
  target and damage bytes; \<open>np\<close> is the handler's local \<^verbatim>\<open>newPlayer\<close> and
  \<open>writeOk\<close> the outcome of the health-loss write. The source runs it in five
  pieces, and other handlers can run between any two of them:
  \<^item> the decrement and the health-loss write, under the mutex;
  \<^item> the test \<^verbatim>\<open>health < 1\<close>, which reads the health again without the mutex;
  \<^item> \<^verbatim>\<open>isAlive = false\<close>, under the mutex;
  \<^item> the Killed broadcast;
  \<^item> the test of the team, read without the mutex, with the TeamPoint
    broadcast and the timer for \<^verbatim>\<open>nextRound\<close>.
\<close>

definition serveWs_hit_locked ::
  "server \<Rightarrow> byte \<Rightarrow> byte \<Rightarrow> bool \<Rightarrow> stop + server \<times> effect list" where
  "serveWs_hit_locked s target dmg writeOk =
     (let hitPlayerId = uint target; damage = uint dmg in
      if \<not> index_ok hitPlayerId then Inl IndexOutOfRange
      else
        let h = nat hitPlayerId;
            p1 = (players s ! h)\<lparr>health := health (players s ! h) - damage\<rparr>
        in case conn p1 of
             None \<Rightarrow> Inl NilPointerDereference
           | Some c \<Rightarrow>
               Inr (s\<lparr>players := (players s)[h := p1]\<rparr>,
                    WriteMessage c [loseHealthHeader, word_of_int damage]
                    # (if writeOk then [] else [LogErr ConnError])))"

definition serveWs_hit_dead :: "server \<Rightarrow> byte \<Rightarrow> bool" where
  "serveWs_hit_dead s target = (health (players s ! nat (uint target)) < 1)"

definition serveWs_hit_mark :: "server \<Rightarrow> byte \<Rightarrow> server" where
  "serveWs_hit_mark s target =
     (let h = nat (uint target) in
      s\<lparr>players := (players s)[h := (players s ! h)\<lparr>isAlive := False\<rparr>]\<rparr>)"

definition serveWs_hit_killed :: "player \<Rightarrow> byte \<Rightarrow> effect list" where
  "serveWs_hit_killed np target =
     [Broadcast [killedHeader, word_of_int (id_p np), word_of_int (uint target)]]"

definition serveWs_hit_point :: "server \<Rightarrow> byte \<Rightarrow> effect list" where
  "serveWs_hit_point s target =
     (let h = nat (uint target) in
      if team (players s ! h) = team_a \<and> isTeamAAllDead s
      then [Broadcast [teamPointHeader, byte_of_team team_b],
            AfterFunc roundEndGraceTime NextRoundTimer]
      else if team (players s ! h) = team_b \<and> isTeamBAllDead s
      then [Broadcast [teamPointHeader, byte_of_team team_a],
            AfterFunc roundEndGraceTime NextRoundTimer]
      else [])"

text \<open>The five pieces in sequence, with no other handler running in between.\<close>

definition serveWs_hit ::
  "server \<Rightarrow> player \<Rightarrow> byte \<Rightarrow> byte \<Rightarrow> bool \<Rightarrow> stop + server \<times> effect list" where
  "serveWs_hit s np target dmg writeOk =
     (case serveWs_hit_locked s target dmg writeOk of
        Inl f \<Rightarrow> Inl f
      | Inr (s1, out1) \<Rightarrow>
          if serveWs_hit_dead s1 target
          then Inr (serveWs_hit_mark s1 target,
                    out1 @ serveWs_hit_killed np target
                    @ serveWs_hit_point (serveWs_hit_mark s1 target) target)
          else Inr (s1, out1))"

text \<open>The body of \<^verbatim>\<open>case byte(locationMessage)\<close> for a message of length 4.\<close>

definition serveWs_location ::
  "server \<Rightarrow> player \<Rightarrow> byte \<Rightarrow> byte \<Rightarrow> byte \<Rightarrow> stop + server \<times> effect list" where
  "serveWs_location s np bx by bz =
     (if \<not> index_ok (id_p np) then Inl IndexOutOfRange
      else
        let i = nat (id_p np) in
        Inr (s\<lparr>players := (players s)[i := (players s ! i)\<lparr>x_p := bx, y_p := by, z_p := bz\<rparr>]\<rparr>,
             []))"

text \<open>One received message: the length check and the \<^verbatim>\<open>switch message[0]\<close>.\<close>

definition serveWs_message ::
  "server \<Rightarrow> player \<Rightarrow> byte list \<Rightarrow> bool \<Rightarrow> stop + server \<times> effect list" where
  "serveWs_message s np message writeOk =
     (if length message = 0 then Inr (s, [Log ''Empty message''])
      else if message ! 0 = hitMessage then
        (if length message \<noteq> 3
         then Inr (s, [Log ''Incorrect message size for hit message''])
         else serveWs_hit s np (message ! 1) (message ! 2) writeOk)
      else if message ! 0 = shotMessage then
        Inr (s, [Broadcast [shotHeader, word_of_int (id_p np)]])
      else if message ! 0 = locationMessage then
        (if length message \<noteq> 4
         then Inr (s, [Log ''Incorrect message size for location message''])
         else serveWs_location s np (message ! 1) (message ! 2) (message ! 3))
      else Inr (s, [Log ''Invalid client message'']))"

text \<open>
  What \<^verbatim>\<open>conn.ReadMessage\<close> returns in the loop: an error, with the value of
  \<^verbatim>\<open>websocket.IsCloseError(err, CloseNormalClosure, CloseGoingAway)\<close>, or a
  message.
\<close>

datatype read = ReadError bool | ReadMessage "byte list"

text \<open>
  \<^verbatim>\<open>ReadMessage\<close> belongs to the websocket library
  (\<^verbatim>\<open>github.com/gorilla/websocket\<close>), which is not part of the repository. Two
  facts of its \<^verbatim>\<open>Conn.NextReader\<close> decide what the loop does after a read error:
  the error is kept in the connection and every later call returns it again,
  and the connection counts the calls that end in an error and panics in the
  call that brings the count to 1000.
\<close>

definition readErrLimit :: nat where
  "readErrLimit = 1000"

text \<open>
  One more \<^verbatim>\<open>ReadMessage\<close> on a connection whose read has failed, after
  \<open>readErrCount\<close> calls that ended in the error: the panic, or the error once
  more and the new count.
\<close>

definition failedRead :: "nat \<Rightarrow> stop + nat" where
  "failedRead readErrCount =
     (if readErrLimit \<le> readErrCount + 1 then Inl RepeatedReadPanic
      else Inr (readErrCount + 1))"

text \<open>
  How an iteration of the communication loop ends: with \<^verbatim>\<open>break\<close>, with the
  next read of a sound connection, or with \<^verbatim>\<open>continue\<close> on a connection whose
  read has failed.
\<close>

datatype control = LoopBreak | LoopContinue | LoopReadFailed

text \<open>One iteration of the communication loop.\<close>

definition serveWs_iteration ::
  "server \<Rightarrow> player \<Rightarrow> read \<Rightarrow> bool \<Rightarrow> stop + server \<times> effect list \<times> control" where
  "serveWs_iteration s np r writeOk =
     (case r of
        ReadError isClose \<Rightarrow>
          if isClose then Inr (s, [], LoopBreak)
          else Inr (s, [LogErr ConnError], LoopReadFailed)
      | ReadMessage message \<Rightarrow>
          (case serveWs_message s np message writeOk of
             Inl f \<Rightarrow> Inl f
           | Inr (s', out) \<Rightarrow> Inr (s', out, LoopContinue)))"

text \<open>
  The loop on a connection whose read has failed with an error that is not a
  close of the two kinds: every further \<^verbatim>\<open>ReadMessage\<close> returns that error, the
  loop logs it and reads again, until the library panics. The result is the
  log lines written on the way and the panic; the server state is not touched.
\<close>

function serveWs_failed :: "nat \<Rightarrow> effect list \<times> stop" where
  "serveWs_failed readErrCount =
     (case failedRead readErrCount of
        Inl f \<Rightarrow> ([], f)
      | Inr n \<Rightarrow>
          (case serveWs_failed n of (out, f) \<Rightarrow> (LogErr ConnError # out, f)))"
  by pat_completeness auto
termination
  by (relation "measure (\<lambda>n. readErrLimit - n)")
     (auto simp: failedRead_def split: if_splits)

declare serveWs_failed.simps [simp del]

text \<open>The code after the loop.\<close>

definition serveWs_disconnect :: "server \<Rightarrow> player \<Rightarrow> stop + server \<times> effect list" where
  "serveWs_disconnect s np =
     (if \<not> index_ok (id_p np) then Inl IndexOutOfRange
      else Inr (s\<lparr>players := (players s)[nat (id_p np) := zeroPlayer],
                  currentNumPlayers := currentNumPlayers s - 1\<rparr>,
                [Broadcast [playerDisconnectHeader, word_of_int (id_p np)]]))"

text \<open>
  The communication loop of one connection, with no other handler running in
  between, on a finite sequence of read results (each with the outcome of the
  write its handling may perform), followed by the disconnect code once the
  loop is left. After a read error that does not leave the loop the rest of
  the sequence does not count: the connection has nothing but that error to
  return. The flag of the result is \<open>True\<close> when \<^verbatim>\<open>serveWs\<close> has returned and
  \<open>False\<close> when the loop is waiting for the next read.
\<close>

fun serveWs_loop ::
  "server \<Rightarrow> player \<Rightarrow> (read \<times> bool) list \<Rightarrow> stop + server \<times> effect list \<times> bool" where
  "serveWs_loop s np [] = Inr (s, [], False)"
| "serveWs_loop s np ((r, writeOk) # rs) =
     (case serveWs_iteration s np r writeOk of
        Inl f \<Rightarrow> Inl f
      | Inr (s1, out1, LoopBreak) \<Rightarrow>
          (case serveWs_disconnect s1 np of
             Inl f \<Rightarrow> Inl f
           | Inr (s2, out2) \<Rightarrow> Inr (s2, out1 @ out2, True))
      | Inr (s1, out1, LoopReadFailed) \<Rightarrow> Inl (snd (serveWs_failed 1))
      | Inr (s1, out1, LoopContinue) \<Rightarrow>
          (case serveWs_loop s1 np rs of
             Inl f \<Rightarrow> Inl f
           | Inr (s2, out2, fin) \<Rightarrow> Inr (s2, out1 @ out2, fin)))"

subsection \<open>Interleaved runs of the whole server\<close>

text \<open>
  The handlers of different connections and the timers interleave. An event
  is a step of a handler that runs without another handler in between:
  \<^item> \<open>Request\<close>: a request to \<^verbatim>\<open>/ws\<close> handled up to the loop;
  \<^item> \<open>Read\<close>: one iteration of the loop of the connection whose local
    \<^verbatim>\<open>newPlayer\<close> is given, with the code after the loop when the iteration
    leaves it;
  \<^item> \<open>Fire\<close>: a timer started by \<^verbatim>\<open>time.AfterFunc\<close> firing;
  \<^item> \<open>HitLocked\<close>, \<open>HitMark\<close>, \<open>HitKilled\<close>, \<open>HitPoint\<close>: the pieces of a Hit
    handler one by one, for the runs in which other handlers come between
    them. \<open>HitMark\<close> and the two after it are the steps of a handler that has
    read \<^verbatim>\<open>health < 1\<close> before; the test itself changes nothing and is no event.
  A run does not record which handler is at which piece, or which connection's
  read has failed, so \<open>exec\<close> admits every interleaving of the pieces and more;
  what holds of all its runs holds of the server's. The reads that only
  return a failed connection's error again, up to the library's panic, change
  no state and are no events. The reads of one unlocked
  stretch count as taken at one moment. A run stops at the first panic of a
  handler piece and at \<^verbatim>\<open>os.Exit\<close>.
\<close>

datatype event =
    Request connection bool "byte list option" bool
  | Read player read bool
  | Fire timer
  | HitLocked byte byte bool
  | HitMark byte
  | HitKilled player byte
  | HitPoint byte

fun step :: "server \<Rightarrow> event \<Rightarrow> stop + server \<times> effect list" where
  "step s (Request c upgradeOk rd writeOk) =
     (case serveWs_accept s upgradeOk c rd writeOk of (s', out, _) \<Rightarrow> Inr (s', out))"
| "step s (Read np r writeOk) =
     (case serveWs_iteration s np r writeOk of
        Inl f \<Rightarrow> Inl f
      | Inr (s1, out1, LoopBreak) \<Rightarrow>
          (case serveWs_disconnect s1 np of
             Inl f \<Rightarrow> Inl f
           | Inr (s2, out2) \<Rightarrow> Inr (s2, out1 @ out2))
      | Inr (s1, out1, _) \<Rightarrow> Inr (s1, out1))"
| "step s (Fire NextRoundTimer) = Inr (nextRound s)"
| "step s (Fire PlayTimer) = Inr (s, [Broadcast [playerHeader]])"
| "step s (Fire ExitTimer) = Inl ProcessExit"
| "step s (HitLocked target dmg writeOk) = serveWs_hit_locked s target dmg writeOk"
| "step s (HitMark target) = Inr (serveWs_hit_mark s target, [])"
| "step s (HitKilled np target) = Inr (s, serveWs_hit_killed np target)"
| "step s (HitPoint target) = Inr (s, serveWs_hit_point s target)"

fun exec :: "server \<Rightarrow> event list \<Rightarrow> stop + server \<times> effect list" where
  "exec s [] = Inr (s, [])"
| "exec s (e # es) =
     (case step s e of
        Inl f \<Rightarrow> Inl f
      | Inr (s1, out1) \<Rightarrow>
          (case exec s1 es of
             Inl f \<Rightarrow> Inl f
           | Inr (s2, out2) \<Rightarrow> Inr (s2, out1 @ out2)))"

subsection \<open>Vocabulary of the properties\<close>

fun isKilled :: "effect \<Rightarrow> bool" where
  "isKilled (Broadcast (h # bs)) = (h = killedHeader)"
| "isKilled e = False"

fun isTeamPoint :: "effect \<Rightarrow> bool" where
  "isTeamPoint (Broadcast (h # bs)) = (h = teamPointHeader)"
| "isTeamPoint e = False"

fun isNextRound :: "effect \<Rightarrow> bool" where
  "isNextRound (Broadcast (h # bs)) = (h = nextRoundHeader)"
| "isNextRound e = False"

text \<open>
  Slot \<open>i\<close> is occupied by a player created by \<^verbatim>\<open>newPlayer\<close> for that very index,
  or it is empty; the array has its six elements.
\<close>

definition slot_ok :: "nat \<Rightarrow> player \<Rightarrow> bool" where
  "slot_ok i p =
     (isEmpty p \<or>
      (id_p p = int i \<and> team p = (if i < maxTeamPlayers then team_a else team_b)))"

definition slots_ok :: "server \<Rightarrow> bool" where
  "slots_ok s =
     (length (players s) = maxPlayers \<and>
      list_all (\<lambda>i. slot_ok i (players s ! i)) [0..<maxPlayers])"

text \<open>
  The target slot after a hit of the given damage, as the Hit handler leaves
  it when no other handler runs in between: the subtraction, and the alive
  flag cleared when the new health is below 1.
\<close>

definition hitPlayer :: "player \<Rightarrow> int \<Rightarrow> player" where
  "hitPlayer p damage =
     p\<lparr>health := health p - damage,
       isAlive := (if health p - damage < 1 then False else isAlive p)\<rparr>"

subsection \<open>A two-player game\<close>

text \<open>
  The server is started for two players; connection 1 asks for id 0 (team A)
  and connection 2 for id 3 (team B). The second handshake fills the lobby and
  starts round 1.
\<close>

definition twoPlayerLobby :: "event list" where
  "twoPlayerLobby = [Request 1 True (Some [0]) True, Request 2 True (Some [3]) True]"

definition roundOne :: server where
  "roundOne = fst (projr (exec (newServer 2) twoPlayerLobby))"

definition player0 :: player where
  "player0 = newPlayer 0 1"

text \<open>
  Player 0 reports a hit of damage 3 on player 3, which ends a round; the
  timer started by that hit then calls \<^verbatim>\<open>nextRound\<close>. Nine such rounds after
  round 1, and the kill of the tenth, lead to the state in which \<^verbatim>\<open>nextRound\<close>
  is called with the counter at 10.
\<close>

definition kill3 :: event where
  "kill3 = Read player0 (ReadMessage [hitMessage, 3, 3]) True"

definition nineRounds :: "event list" where
  "nineRounds = concat (replicate 9 [kill3, Fire NextRoundTimer])"

definition roundTen :: server where
  "roundTen = fst (projr (exec roundOne (nineRounds @ [kill3])))"

text \<open>A second hit, of damage 1, on player 3.\<close>

definition hitAgain :: event where
  "hitAgain = Read player0 (ReadMessage [hitMessage, 3, 1]) True"

text \<open>
  A three-player game with ids 0 and 1 (team A) and 3 (team B), in round 1.
  Players 0 and 1 each report a hit of damage 2 on player 3, and the locked
  pieces of the two handlers run before either handler goes on.
\<close>

definition twoVsOneLobby :: "event list" where
  "twoVsOneLobby = [Request 1 True (Some [0]) True, Request 2 True (Some [1]) True,
                    Request 3 True (Some [3]) True]"

definition twoVsOne :: server where
  "twoVsOne = fst (projr (exec (newServer 3) twoVsOneLobby))"

definition player1 :: player where
  "player1 = newPlayer 1 2"

definition bothLocked :: "event list" where
  "bothLocked = [HitLocked 3 2 True, HitLocked 3 2 True]"

text \<open>
  A three-player game with ids 0 (team A) and 3 and 4 (team B), in round 1.
  Player 0 kills player 3, then the connection of player 4 closes normally.
\<close>

definition oneVsTwoLobby :: "event list" where
  "oneVsTwoLobby = [Request 1 True (Some [0]) True, Request 2 True (Some [3]) True,
                    Request 3 True (Some [4]) True]"

definition oneVsTwo :: server where
  "oneVsTwo = fst (projr (exec (newServer 3) oneVsTwoLobby))"

definition player4 :: player where
  "player4 = newPlayer 4 3"

definition killThenLeave :: "event list" where
  "killThenLeave = [kill3, Read player4 (ReadError True) True]"

text \<open>Player 0 reports its position in round 1.\<close>

definition move0 :: event where
  "move0 = Read player0 (ReadMessage [locationMessage, 8, 16, 248]) True"

section \<open>Properties\<close>

subsection \<open>Auxiliary facts\<close>

lemmas header_defs = nextRoundHeader_def playerHeader_def locationsHeader_def shotHeader_def
  killedHeader_def teamPointHeader_def loseHealthHeader_def playerDisconnectHeader_def

lemma roundOne_eq:
  "roundOne = \<lparr>players =
         [\<lparr>id_p = 0, health = 3, team = team_a, conn = Some 1,
             isAlive = True, x_p = 0, y_p = 0, z_p = 0\<rparr>,
          \<lparr>id_p = 0, health = 3, team = team_a, conn = None, isAlive = True,
             x_p = 0, y_p = 0, z_p = 0\<rparr>,
          \<lparr>id_p = 0, health = 3, team = team_a, conn = None, isAlive = True,
             x_p = 0, y_p = 0, z_p = 0\<rparr>,
          \<lparr>id_p = 3, health = 3, team = team_b, conn = Some 2,
             isAlive = True, x_p = 0, y_p = 0, z_p = 0\<rparr>,
          \<lparr>id_p = 0, health = 3, team = team_a, conn = None, isAlive = True,
             x_p = 0, y_p = 0, z_p = 0\<rparr>,
          \<lparr>id_p = 0, health = 3, team = team_a, conn = None, isAlive = True,
             x_p = 0, y_p = 0, z_p = 0\<rparr>],
         teamAPoints = 0, teamBPoints = 0, round = 1, numPlayers = 2,
         currentNumPlayers = 2\<rparr>"
  by code_simp

lemma exec_twoPlayerLobby:
  "exec (newServer 2) twoPlayerLobby =
     Inr (roundOne, [WriteMessage 1 [success], WriteMessage 2 [success],
                     Broadcast [nextRoundHeader], AfterFunc roundStartGraceTime PlayTimer])"
  unfolding roundOne_eq by code_simp

lemma allDead_iff: "allDead ps = (\<forall>p \<in> set ps. isEmpty p \<or> \<not> isAlive p)"
  by (induction ps) auto

lemma hit_message_is_hit:
  "serveWs_message s np [hitMessage, t, d] w = serveWs_hit s np t d w"
  by (simp add: serveWs_message_def)

lemma index_ok_byte: "index_ok (uint (t::byte)) = (unat t < maxPlayers)"
  unfolding index_ok_def by (metis of_nat_unat uint_nonnegative of_nat_less_iff)

text \<open>
  A Hit message whose target byte names an occupied slot runs without a panic;
  this is the result of its handler when no other handler runs in between.
\<close>

lemma serveWs_hit_normal:
  assumes "unat t < maxPlayers" and "conn (players s ! unat t) = Some c"
    and "length (players s) = maxPlayers"
  shows "serveWs_hit s np t d w =
     Inr (s\<lparr>players := (players s)[unat t := hitPlayer (players s ! unat t) (uint d)]\<rparr>,
          WriteMessage c [loseHealthHeader, d] # (if w then [] else [LogErr ConnError])
          @ (if health (players s ! unat t) - uint d < 1
             then Broadcast [killedHeader, word_of_int (id_p np), t]
                  # (if team (players s ! unat t) = team_a
                        \<and> isTeamAAllDead (s\<lparr>players :=
                             (players s)[unat t := hitPlayer (players s ! unat t) (uint d)]\<rparr>)
                     then [Broadcast [teamPointHeader, byte_of_team team_b],
                           AfterFunc roundEndGraceTime NextRoundTimer]
                     else if team (players s ! unat t) = team_b
                        \<and> isTeamBAllDead (s\<lparr>players :=
                             (players s)[unat t := hitPlayer (players s ! unat t) (uint d)]\<rparr>)
                     then [Broadcast [teamPointHeader, byte_of_team team_a],
                           AfterFunc roundEndGraceTime NextRoundTimer]
                     else [])
             else []))"
  using assms
  by (simp add: serveWs_hit_def serveWs_hit_locked_def serveWs_hit_dead_def
      serveWs_hit_mark_def serveWs_hit_killed_def serveWs_hit_point_def
      Let_def index_ok_byte hitPlayer_def)

text \<open>
  Two facts that every handler step keeps: the round counter moves only with
  a NextRound broadcast, by one each, and an occupied slot holds the player
  made for its own index.
\<close>

lemma slots_ok_iff:
  "slots_ok s = (length (players s) = maxPlayers \<and> (\<forall>i < maxPlayers. slot_ok i (players s ! i)))"
  by (auto simp: slots_ok_def list_all_iff)

lemma slot_ok_resetPlayer [simp]: "slot_ok i (resetPlayer p) = slot_ok i p"
  by (simp add: slot_ok_def resetPlayer_def isEmpty_def)

lemma slot_ok_zeroPlayer [simp]: "slot_ok i zeroPlayer"
  by (simp add: slot_ok_def zeroPlayer_def isEmpty_def)

lemma slot_ok_newPlayer [simp]: "slot_ok i (newPlayer (int i) c)"
  by (simp add: slot_ok_def newPlayer_def)

lemma slot_ok_newPlayer_byte [simp]: "slot_ok (unat (b::byte)) (newPlayer (uint b) c)"
  by (metis slot_ok_newPlayer uint_nat)

lemma slot_ok_location [simp]: "slot_ok i (p\<lparr>x_p := bx, y_p := by, z_p := bz\<rparr>) = slot_ok i p"
  by (simp add: slot_ok_def isEmpty_def)

lemma slots_ok_update:
  assumes "slots_ok s" and "k < maxPlayers \<Longrightarrow> slot_ok k p"
  shows "slots_ok (s\<lparr>players := (players s)[k := p]\<rparr>)"
proof -
  have "slot_ok i ((players s)[k := p] ! i)" if "i < maxPlayers" for i
  proof (cases "i = k")
    case True
    with that assms show ?thesis by (simp add: slots_ok_iff)
  next
    case False
    with that assms(1) show ?thesis by (simp add: slots_ok_iff)
  qed
  with assms(1) show ?thesis by (simp add: slots_ok_iff)
qed

lemma slots_ok_more [simp]:
  "slots_ok (s\<lparr>currentNumPlayers := n\<rparr>) = slots_ok s"
  "slots_ok (s\<lparr>round := r\<rparr>) = slots_ok s"
  by (simp_all add: slots_ok_def)

lemma slot_ok_mark [simp]: "slot_ok i (p\<lparr>isAlive := a\<rparr>) = slot_ok i p"
  by (simp add: slot_ok_def isEmpty_def)

lemma slot_ok_health [simp]: "slot_ok i (p\<lparr>health := v\<rparr>) = slot_ok i p"
  by (simp add: slot_ok_def isEmpty_def)

lemma serveWs_hit_locked_inv:
  assumes "serveWs_hit_locked s t d w = Inr (s', out)"
  shows "round s' = round s" and "filter isNextRound out = []"
    and "slots_ok s \<Longrightarrow> slots_ok s'"
proof -
  from assms have s': "s' = s\<lparr>players := (players s)[unat t :=
      (players s ! unat t)\<lparr>health := health (players s ! unat t) - uint d\<rparr>]\<rparr>"
    by (auto simp: serveWs_hit_locked_def Let_def split: if_splits option.splits)
  from s' show "round s' = round s" by simp
  from assms show "filter isNextRound out = []"
    by (auto simp: serveWs_hit_locked_def Let_def header_defs split: if_splits option.splits)
  assume ok: "slots_ok s"
  show "slots_ok s'"
    unfolding s'
  proof (rule slots_ok_update [OF ok])
    assume "unat t < maxPlayers"
    with ok show "slot_ok (unat t)
        ((players s ! unat t)\<lparr>health := health (players s ! unat t) - uint d\<rparr>)"
      by (simp add: slots_ok_iff)
  qed
qed

lemma serveWs_hit_mark_inv:
  "round (serveWs_hit_mark s t) = round s"
  "slots_ok s \<Longrightarrow> slots_ok (serveWs_hit_mark s t)"
proof -
  show "round (serveWs_hit_mark s t) = round s"
    by (simp add: serveWs_hit_mark_def Let_def)
  assume ok: "slots_ok s"
  have "slots_ok (s\<lparr>players := (players s)[unat t := (players s ! unat t)\<lparr>isAlive := False\<rparr>]\<rparr>)"
  proof (rule slots_ok_update [OF ok])
    assume "unat t < maxPlayers"
    with ok show "slot_ok (unat t) ((players s ! unat t)\<lparr>isAlive := False\<rparr>)"
      by (simp add: slots_ok_iff)
  qed
  then show "slots_ok (serveWs_hit_mark s t)"
    by (simp add: serveWs_hit_mark_def Let_def)
qed

lemma serveWs_hit_outputs:
  "filter isNextRound (serveWs_hit_killed np t) = []"
  "filter isNextRound (serveWs_hit_point s t) = []"
  by (simp_all add: serveWs_hit_killed_def serveWs_hit_point_def Let_def header_defs)

lemma serveWs_hit_inv:
  assumes "serveWs_hit s np t d w = Inr (s', out)"
  shows "round s' = round s" and "filter isNextRound out = []"
    and "slots_ok s \<Longrightarrow> slots_ok s'"
proof -
  from assms obtain s1 out1 where l: "serveWs_hit_locked s t d w = Inr (s1, out1)"
    and r: "s' = (if serveWs_hit_dead s1 t then serveWs_hit_mark s1 t else s1)"
    and o: "out = (if serveWs_hit_dead s1 t
         then out1 @ serveWs_hit_killed np t @ serveWs_hit_point (serveWs_hit_mark s1 t) t
         else out1)"
    by (auto simp: serveWs_hit_def split: sum.splits if_splits)
  note inv = serveWs_hit_locked_inv [OF l]
  from r inv(1) show "round s' = round s"
    by (simp add: serveWs_hit_mark_inv)
  from o inv(2) show "filter isNextRound out = []"
    by (simp add: serveWs_hit_outputs)
  assume "slots_ok s"
  with r inv(3) show "slots_ok s'"
    by (simp add: serveWs_hit_mark_inv)
qed

lemma serveWs_location_inv:
  assumes "serveWs_location s np bx by bz = Inr (s', out)"
  shows "round s' = round s" and "out = []" and "slots_ok s \<Longrightarrow> slots_ok s'"
proof -
  from assms have s': "s' = s\<lparr>players := (players s)[nat (id_p np) :=
      (players s ! nat (id_p np))\<lparr>x_p := bx, y_p := by, z_p := bz\<rparr>]\<rparr>" and out: "out = []"
    by (auto simp: serveWs_location_def Let_def split: if_splits)
  from s' show "round s' = round s" by simp
  from out show "out = []" .
  assume ok: "slots_ok s"
  show "slots_ok s'"
    unfolding s'
  proof (rule slots_ok_update [OF ok])
    assume "nat (id_p np) < maxPlayers"
    with ok show "slot_ok (nat (id_p np))
        ((players s ! nat (id_p np))\<lparr>x_p := bx, y_p := by, z_p := bz\<rparr>)"
      by (simp add: slots_ok_iff)
  qed
qed

lemma serveWs_message_inv:
  assumes "serveWs_message s np m w = Inr (s', out)"
  shows "round s' = round s" and "filter isNextRound out = []"
    and "slots_ok s \<Longrightarrow> slots_ok s'"
  using assms
  by (auto simp: serveWs_message_def header_defs split: if_splits
      dest: serveWs_hit_inv serveWs_location_inv)

lemma serveWs_disconnect_inv:
  assumes "serveWs_disconnect s np = Inr (s', out)"
  shows "round s' = round s" and "filter isNextRound out = []"
    and "slots_ok s \<Longrightarrow> slots_ok s'"
  using assms
  by (auto simp: serveWs_disconnect_def header_defs split: if_splits
      intro!: slots_ok_update)

lemma nextRound_inv:
  "round (fst (nextRound s)) = round s + 1"
  "filter isNextRound (snd (nextRound s)) = [Broadcast [nextRoundHeader]]"
  "slots_ok s \<Longrightarrow> slots_ok (fst (nextRound s))"
  by (auto simp: nextRound_def slots_ok_iff)

lemma initialisePlayer_inv:
  assumes "initialisePlayer s c rd w = (s', np, e, out)"
  shows "round s' = round s" and "filter isNextRound out = []"
    and "slots_ok s \<Longrightarrow> slots_ok s'"
proof -
  from assms show "round s' = round s"
    by (auto simp: initialisePlayer_def Let_def split: option.splits if_splits)
  from assms show "filter isNextRound out = []"
    by (auto simp: initialisePlayer_def Let_def split: option.splits if_splits)
  assume ok: "slots_ok s"
  from assms ok show "slots_ok s'"
    by (auto simp: initialisePlayer_def Let_def split: option.splits if_splits
        intro!: slots_ok_update)
qed

lemma serveWs_accept_inv:
  assumes "serveWs_accept s up c rd w = (s', out, r)"
  shows "round s' = round s + int (length (filter isNextRound out))"
    and "slots_ok s \<Longrightarrow> slots_ok s'"
proof -
  obtain s1 np e out1 where ip: "initialisePlayer s c rd w = (s1, np, e, out1)"
    by (cases "initialisePlayer s c rd w") auto
  note inv = initialisePlayer_inv [OF ip]
  from assms ip inv(1,2) show "round s' = round s + int (length (filter isNextRound out))"
    by (auto simp: serveWs_accept_def nextRound_inv split: if_splits option.splits)
  assume "slots_ok s"
  with assms ip inv(3) show "slots_ok s'"
    by (auto simp: serveWs_accept_def nextRound_inv split: if_splits option.splits)
qed

lemma serveWs_iteration_inv:
  assumes "serveWs_iteration s np r w = Inr (s', out, k)"
  shows "round s' = round s" and "filter isNextRound out = []"
    and "slots_ok s \<Longrightarrow> slots_ok s'"
  using assms
  by (auto simp: serveWs_iteration_def split: read.splits if_splits sum.splits prod.splits
      dest: serveWs_message_inv)

lemma step_Read_inv:
  assumes "step s (Read np r w) = Inr (s', out)"
  shows "round s' = round s" and "filter isNextRound out = []"
    and "slots_ok s \<Longrightarrow> slots_ok s'"
proof -
  from assms obtain s1 out1 k where it: "serveWs_iteration s np r w = Inr (s1, out1, k)"
    by (auto split: sum.splits prod.splits)
  note inv = serveWs_iteration_inv [OF it]
  show "round s' = round s"
  proof (cases k)
    case LoopBreak
    with assms it obtain out2 where "serveWs_disconnect s1 np = Inr (s', out2)"
      by (auto split: sum.splits prod.splits)
    from serveWs_disconnect_inv(1) [OF this] inv(1) show ?thesis by simp
  qed (use assms it inv(1) in auto)
  show "filter isNextRound out = []"
  proof (cases k)
    case LoopBreak
    with assms it obtain out2 where "serveWs_disconnect s1 np = Inr (s', out2)"
      and "out = out1 @ out2"
      by (auto split: sum.splits prod.splits)
    with serveWs_disconnect_inv(2) [OF this(1)] inv(2) show ?thesis by simp
  qed (use assms it inv(2) in auto)
  assume ok: "slots_ok s"
  show "slots_ok s'"
  proof (cases k)
    case LoopBreak
    with assms it obtain out2 where "serveWs_disconnect s1 np = Inr (s', out2)"
      by (auto split: sum.splits prod.splits)
    from serveWs_disconnect_inv(3) [OF this] inv(3) [OF ok] show ?thesis by simp
  qed (use assms it inv(3) [OF ok] in auto)
qed

lemma step_inv:
  assumes "step s e = Inr (s', out)"
  shows "round s' = round s + int (length (filter isNextRound out))"
    and "slots_ok s \<Longrightarrow> slots_ok s'"
proof -
  show "round s' = round s + int (length (filter isNextRound out))"
  proof (cases e)
    case (Request c up rd w)
    with assms show ?thesis
      by (auto split: prod.splits dest: serveWs_accept_inv(1))
  next
    case (Read np r w)
    with assms step_Read_inv(1,2) [of s np r w s' out] show ?thesis
      by simp
  next
    case (Fire tm)
    with assms show ?thesis
      by (cases tm) (auto simp: nextRound_inv header_defs prod_eq_iff)
  next
    case (HitLocked t d w)
    with assms serveWs_hit_locked_inv(1,2) [of s t d w s' out] show ?thesis
      by simp
  next
    case (HitMark t)
    with assms show ?thesis
      by (auto simp: serveWs_hit_mark_inv)
  next
    case (HitKilled np t)
    with assms show ?thesis
      by (auto simp: serveWs_hit_outputs)
  next
    case (HitPoint t)
    with assms show ?thesis
      by (auto simp: serveWs_hit_outputs)
  qed
  assume ok: "slots_ok s"
  show "slots_ok s'"
  proof (cases e)
    case (Request c up rd w)
    with assms ok show ?thesis
      by (auto split: prod.splits dest: serveWs_accept_inv(2))
  next
    case (Read np r w)
    with assms ok step_Read_inv(3) [of s np r w s' out] show ?thesis
      by simp
  next
    case (Fire tm)
    with assms ok show ?thesis
      by (cases tm) (auto simp: nextRound_inv prod_eq_iff)
  next
    case (HitLocked t d w)
    with assms ok serveWs_hit_locked_inv(3) [of s t d w s' out] show ?thesis
      by simp
  next
    case (HitMark t)
    with assms ok show ?thesis
      by (auto simp: serveWs_hit_mark_inv)
  next
    case (HitKilled np t)
    with assms ok show ?thesis by auto
  next
    case (HitPoint t)
    with assms ok show ?thesis by auto
  qed
qed

lemma exec_inv:
  assumes "exec s evs = Inr (s', out)"
  shows "round s' = round s + int (length (filter isNextRound out))"
    and "slots_ok s \<Longrightarrow> slots_ok s'"
proof -
  have "round s' = round s + int (length (filter isNextRound out))
        \<and> (slots_ok s \<longrightarrow> slots_ok s')"
    using assms
  proof (induction evs arbitrary: s s' out)
    case Nil
    then show ?case by simp
  next
    case (Cons e es)
    from Cons.prems obtain s1 out1 s2 out2 where
      st: "step s e = Inr (s1, out1)" and ex: "exec s1 es = Inr (s2, out2)"
      and eq: "s' = s2" "out = out1 @ out2"
      by (auto split: sum.splits prod.splits)
    from step_inv [OF st] Cons.IH [OF ex] eq show ?case
      by simp
  qed
  then show "round s' = round s + int (length (filter isNextRound out))"
    and "slots_ok s \<Longrightarrow> slots_ok s'" by simp_all
qed

lemma slots_ok_newServer: "slots_ok (newServer n)"
  by (simp add: slots_ok_iff newServer_def)


text \<open>The handshake, the failed reads and the snapshot loops in closed form.\<close>

lemma initialisePlayer_reject:
  assumes "length m \<noteq> 1 \<or> 5 < m ! 0 \<or> \<not> isEmpty (players s ! unat (m ! 0))"
  shows "\<exists>e. initialisePlayer s c (Some m) w = (s, zeroPlayer, Some e, [WriteMessage c [failure]])"
  using assms by (auto simp: initialisePlayer_def Let_def)

lemma initialisePlayer_admit:
  assumes "length m = 1" and "\<not> 5 < m ! 0" and "isEmpty (players s ! unat (m ! 0))"
  shows "initialisePlayer s c (Some m) w =
      (s\<lparr>players := (players s)[unat (m ! 0) := newPlayer (uint (m ! 0)) c],
         currentNumPlayers := currentNumPlayers s + 1\<rparr>,
       newPlayer (uint (m ! 0)) c, (if w then None else Some ConnError),
       [WriteMessage c [success]])"
  using assms by (auto simp: initialisePlayer_def Let_def)

lemma byte_le_5: "\<not> 5 < (b::byte) \<Longrightarrow> unat b < maxPlayers"
  by (simp add: maxPlayers_def word_less_nat_alt)

lemma initialisePlayer_early_error:
  assumes "initialisePlayer s c rd w = (s', np, Some e, out)" and "e \<noteq> ConnError \<or> rd = None"
  shows "s' = s"
  using assms
  by (auto simp: initialisePlayer_def Let_def split: option.splits if_splits)

lemma serveWs_failed_eq:
  "n < readErrLimit \<Longrightarrow>
     serveWs_failed n = (replicate (readErrLimit - 1 - n) (LogErr ConnError), RepeatedReadPanic)"
proof (induction n rule: serveWs_failed.induct)
  case (1 n)
  show ?case
  proof (cases "readErrLimit \<le> n + 1")
    case True
    with "1.prems" have "readErrLimit - 1 - n = 0" by simp
    with True show ?thesis
      by (subst serveWs_failed.simps) (simp add: failedRead_def)
  next
    case False
    then have f: "failedRead n = Inr (n + 1)" and lt: "n + 1 < readErrLimit"
      by (simp_all add: failedRead_def)
    from lt have r: "readErrLimit - 1 - n = Suc (readErrLimit - 1 - (n + 1))" by simp
    have "serveWs_failed n =
        (LogErr ConnError # replicate (readErrLimit - 1 - (n + 1)) (LogErr ConnError),
         RepeatedReadPanic)"
      using "1.IH" [OF f lt] f by (subst serveWs_failed.simps) simp
    also have "LogErr ConnError # replicate (readErrLimit - 1 - (n + 1)) (LogErr ConnError)
        = replicate (readErrLimit - 1 - n) (LogErr ConnError)"
      unfolding r by simp
    finally show ?thesis .
  qed
qed

lemma read_failed_panics:
  "serveWs_loop s np ((ReadError False, w) # rs) = Inl RepeatedReadPanic"
  by (simp add: serveWs_iteration_def serveWs_failed_eq readErrLimit_def)

lemma shot_not_length_checked:
  "message \<noteq> [] \<Longrightarrow> message ! 0 = shotMessage \<Longrightarrow>
     serveWs_message s np message w = Inr (s, [Broadcast [shotHeader, word_of_int (id_p np)]])"
  by (simp add: serveWs_message_def hitMessage_def shotMessage_def)

lemma writeParcels_eq:
  "writeParcels buf ps = buf @ concat (map locationParcel (filter (\<lambda>p. \<not> isEmpty p) ps))"
  by (induction ps arbitrary: buf) simp_all

lemma writeAll_writes:
  "(WriteMessage c m \<in> set (writeAll fails m' ps)) = (m = m' \<and> (\<exists>p \<in> set ps. conn p = Some c))"
  by (induction ps) (auto split: option.splits)

lemma slots_ok_parcel:
  assumes "slots_ok s" and "i < maxPlayers" and "\<not> isEmpty (players s ! i)"
  shows "locationParcel (players s ! i) =
     [of_nat i, x_p (players s ! i), y_p (players s ! i), z_p (players s ! i)]"
  using assms by (auto simp: slots_ok_iff slot_ok_def locationParcel_def)

lemma round_newServer [simp]: "round (newServer n) = 0"
  by (simp add: newServer_def)

subsection \<open>Health bookkeeping\<close>

text \<open>
  Claim C1, as the code has it. A Hit message of length 3 whose target byte is
  below 6 and names an occupied slot is handled without a panic, and it
  lowers the stored health of the target slot by exactly the damage byte
  (0 to 255): there is no floor at 0, so the stored health may become
  negative. The health of every other slot is unchanged.
\<close>

theorem hit_subtracts_damage_without_floor:
  assumes "length (players s) = maxPlayers"
      and "unat target < maxPlayers"
      and "\<not> isEmpty (players s ! unat target)"
  shows "\<exists>s' out. serveWs_message s np [hitMessage, target, dmg] writeOk = Inr (s', out)
           \<and> health (players s' ! unat target) = health (players s ! unat target) - uint dmg
           \<and> (\<forall>i < maxPlayers. i \<noteq> unat target
                  \<longrightarrow> health (players s' ! i) = health (players s ! i))"
proof -
  from assms(3) obtain c where c: "conn (players s ! unat target) = Some c"
    by (auto simp: isEmpty_def)
  show ?thesis
    unfolding hit_message_is_hit serveWs_hit_normal [OF assms(2) c assms(1)]
    using assms(1,2) by (simp add: hitPlayer_def)
qed

theorem hit_subtracts_damage_without_floor_witness:
  "length (players roundOne) = maxPlayers \<and> unat (3::byte) < maxPlayers
   \<and> \<not> isEmpty (players roundOne ! unat (3::byte))
   \<and> (\<exists>s' out. serveWs_message roundOne player0 [hitMessage, 3, 255] True = Inr (s', out)
           \<and> health (players s' ! unat (3::byte)) = - 252)"
proof -
  have h1: "length (players roundOne) = maxPlayers"
    by (simp add: roundOne_eq maxPlayers_def)
  have h2: "unat (3::byte) < maxPlayers"
    by (simp add: maxPlayers_def)
  have h3: "\<not> isEmpty (players roundOne ! unat (3::byte))"
    by (simp add: roundOne_eq isEmpty_def)
  have h4: "health (players roundOne ! unat (3::byte)) - uint (255::byte) = - 252"
    by (simp add: roundOne_eq)
  from hit_subtracts_damage_without_floor [OF h1 h2 h3, of player0 255 True]
  show ?thesis
    unfolding h4 using h1 h2 h3 by blast
qed

text \<open>
  The claim as stated (health never below 0) fails: in round 1 of the
  two-player game, player 0 reports a hit of damage 255 on player 3, whose
  health goes from 3 to -252.
\<close>

theorem health_negative_counterexample:
  "\<not> isl (exec (newServer 2)
            (twoPlayerLobby @ [Read player0 (ReadMessage [hitMessage, 3, 255]) True]))
   \<and> health (players (fst (projr (exec (newServer 2)
        (twoPlayerLobby @ [Read player0 (ReadMessage [hitMessage, 3, 255]) True])))) ! 3)
       = - 252"
  by code_simp

subsection \<open>Kills\<close>

text \<open>
  Claim C3 does not hold of the code: the Hit handler tests only the health
  after the subtraction and never the alive flag. In round 1 of the two-player
  game a hit of damage 3 kills player 3, and a second hit on the dead player,
  of damage 1, broadcasts Killed a second time. The test also reads the health
  after the mutex has been released: when two handlers each subtract 2 from
  the health 3 of player 3 before either goes on, the first hit leaves health
  1 and kills nobody, yet both handlers then read -1 and both broadcast
  Killed.
\<close>

theorem repeated_hit_repeats_killed:
  "\<not> isl (exec roundOne [kill3])
   \<and> \<not> isAlive (players (fst (projr (exec roundOne [kill3]))) ! 3)
   \<and> filter isKilled (snd (projr (exec roundOne [kill3]))) = [Broadcast [killedHeader, 0, 3]]
   \<and> filter isKilled (snd (projr (exec roundOne [kill3, hitAgain])))
       = [Broadcast [killedHeader, 0, 3], Broadcast [killedHeader, 0, 3]]
   \<and> health (players (fst (projr (exec twoVsOne [HitLocked 3 2 True]))) ! 3) = 1
   \<and> health (players (fst (projr (exec twoVsOne bothLocked))) ! 3) = - 1
   \<and> serveWs_hit_dead (fst (projr (exec twoVsOne bothLocked))) 3
   \<and> serveWs_hit_dead (fst (projr (exec twoVsOne
          (bothLocked @ [HitMark 3, HitKilled player0 3, HitPoint 3])))) 3
   \<and> filter isKilled (snd (projr (exec twoVsOne
          (bothLocked @ [HitMark 3, HitKilled player0 3, HitPoint 3,
                         HitMark 3, HitKilled player1 3, HitPoint 3]))))
       = [Broadcast [killedHeader, 0, 3], Broadcast [killedHeader, 1, 3]]"
  by code_simp

theorem repeated_hit_repeats_killed_witness:
  "length (filter isKilled (snd (projr (exec roundOne [kill3, hitAgain])))) = 2
   \<and> length (filter isKilled (snd (projr (exec twoVsOne
          (bothLocked @ [HitMark 3, HitKilled player0 3, HitPoint 3,
                         HitMark 3, HitKilled player1 3, HitPoint 3]))))) = 2"
  using repeated_hit_repeats_killed by simp

subsection \<open>Team points\<close>

text \<open>
  Claim C4 does not hold of the code. The hit that eliminates team B while
  team A is alive announces the point, and a second hit on the dead player
  before the next round announces it again and starts a second timer for
  \<^verbatim>\<open>nextRound\<close>: two TeamPoint broadcasts with no NextRound between them, and
  the counter at 3 once both timers have fired. And a team that loses its
  last living member by a disconnect gets no TeamPoint at all: with player 3
  dead and player 4 gone, team B has an occupied member and none alive, team A
  is alive, and neither a TeamPoint nor a timer has been produced.
\<close>

theorem repeated_hit_repeats_team_point:
  "isTeamBAllDead (fst (projr (exec roundOne [kill3])))
   \<and> \<not> isTeamAAllDead (fst (projr (exec roundOne [kill3])))
   \<and> filter isTeamPoint (snd (projr (exec roundOne [kill3, hitAgain])))
       = [Broadcast [teamPointHeader, 0], Broadcast [teamPointHeader, 0]]
   \<and> filter isNextRound (snd (projr (exec roundOne [kill3, hitAgain]))) = []
   \<and> count_list (snd (projr (exec roundOne [kill3, hitAgain])))
        (AfterFunc roundEndGraceTime NextRoundTimer) = 2
   \<and> round roundOne = 1
   \<and> round (fst (projr (exec roundOne
        [kill3, hitAgain, Fire NextRoundTimer, Fire NextRoundTimer]))) = 3
   \<and> \<not> isl (exec oneVsTwo killThenLeave)
   \<and> \<not> isEmpty (players (fst (projr (exec oneVsTwo killThenLeave))) ! 3)
   \<and> isTeamBAllDead (fst (projr (exec oneVsTwo killThenLeave)))
   \<and> \<not> isTeamAAllDead (fst (projr (exec oneVsTwo killThenLeave)))
   \<and> filter isTeamPoint (snd (projr (exec oneVsTwo killThenLeave))) = []
   \<and> count_list (snd (projr (exec oneVsTwo killThenLeave)))
        (AfterFunc roundEndGraceTime NextRoundTimer) = 0"
  by code_simp

theorem repeated_hit_repeats_team_point_witness:
  "length (filter isTeamPoint (snd (projr (exec roundOne [kill3, hitAgain])))) = 2
   \<and> round (fst (projr (exec roundOne
        [kill3, hitAgain, Fire NextRoundTimer, Fire NextRoundTimer]))) = round roundOne + 2"
  using repeated_hit_repeats_team_point by simp

subsection \<open>Round counter\<close>

text \<open>
  Claim C2, as the code has it. Every call of \<^verbatim>\<open>nextRound\<close> raises the round
  counter by exactly 1 and emits exactly one NextRound broadcast, whatever the
  counter is: there is no cap at 10. The call made when the counter is 10, and
  no other, also starts the timer that ends the process after the linger
  time; it still broadcasts NextRound and leaves the counter at 11. In every
  run of the server the counter grows by the number of NextRound broadcasts.
\<close>

theorem nextRound_adds_one_at_every_round:
  "round (fst (nextRound s)) = round s + 1
   \<and> filter isNextRound (snd (nextRound s)) = [Broadcast [nextRoundHeader]]
   \<and> (AfterFunc afterGameLingerTime ExitTimer \<in> set (snd (nextRound s))) = (round s = lastRound)
   \<and> (\<forall>evs s' out. exec s evs = Inr (s', out)
          \<longrightarrow> round s' = round s + int (length (filter isNextRound out)))"
  by (auto simp: nextRound_inv exec_inv(1)) (auto simp: nextRound_def)

theorem nextRound_adds_one_at_every_round_witness:
  "exec (newServer 2) twoPlayerLobby =
     Inr (roundOne, [WriteMessage 1 [success], WriteMessage 2 [success],
                     Broadcast [nextRoundHeader], AfterFunc roundStartGraceTime PlayTimer])
   \<and> round roundOne = round (newServer 2) + 1
   \<and> round (fst (nextRound roundOne)) = 2"
proof -
  note t = nextRound_adds_one_at_every_round [of "newServer 2"]
  note u = nextRound_adds_one_at_every_round [of roundOne]
  from t exec_twoPlayerLobby have "round roundOne = round (newServer 2)
     + int (length (filter isNextRound [WriteMessage 1 [success], WriteMessage 2 [success],
                     Broadcast [nextRoundHeader], AfterFunc roundStartGraceTime PlayTimer]))"
    by blast
  then have "round roundOne = round (newServer 2) + 1"
    by (simp add: header_defs)
  moreover from this u have "round (fst (nextRound roundOne)) = 2"
    by (simp add: newServer_def)
  ultimately show ?thesis
    using exec_twoPlayerLobby by simp
qed

text \<open>
  The claim as stated (never above 10, no NextRound once 10 is reached) fails:
  after ten rounds of the two-player game the counter is 10, and the call of
  \<^verbatim>\<open>nextRound\<close> that follows the last kill schedules the exit, broadcasts
  NextRound and sets the counter to 11.
\<close>

theorem round_eleven_counterexample:
  "\<not> isl (exec roundOne (nineRounds @ [kill3]))
   \<and> round roundTen = lastRound
   \<and> round (fst (nextRound roundTen)) = 11
   \<and> snd (nextRound roundTen) =
       [AfterFunc afterGameLingerTime ExitTimer, Broadcast [nextRoundHeader],
        AfterFunc roundStartGraceTime PlayTimer]"
  by code_simp

subsection \<open>Handshake\<close>

text \<open>
  Claim C5, as the code has it. A request that arrives when the lobby is full
  or a round is in progress is refused with HTTP status 403 before the
  websocket exists: no failure byte is sent. Otherwise, when the upgrade and
  the first read succeed, the failure byte 1 is written and the registry is
  left as it was exactly when the message is not a single byte in 0..5 or
  the requested slot is occupied; in the remaining case the slot holds the new
  player, the live count is one higher and the success byte 0 is written (the
  handler goes on to the receive loop if that write succeeds). A failed
  upgrade or first read is only logged.
\<close>

theorem handshake_outcomes:
  assumes "length (players s) = maxPlayers"
  shows "(numPlayers s \<le> currentNumPlayers s \<or> 0 < round s \<longrightarrow>
            (\<exists>line. serveWs_accept s up c rd w = (s, [HttpError line 403], None)))
      \<and> (\<not> numPlayers s \<le> currentNumPlayers s \<and> \<not> 0 < round s \<and> (\<not> up \<or> rd = None) \<longrightarrow>
            serveWs_accept s up c rd w = (s, [LogErr ConnError], None))
      \<and> (\<not> numPlayers s \<le> currentNumPlayers s \<and> \<not> 0 < round s \<and> up \<and> rd = Some m \<longrightarrow>
            (if length m \<noteq> 1 \<or> 5 < m ! 0 \<or> \<not> isEmpty (players s ! unat (m ! 0))
             then \<exists>e. serveWs_accept s up c rd w = (s, [WriteMessage c [failure], LogErr e], None)
             else \<exists>s' rest. serveWs_accept s up c rd w =
                      (s', WriteMessage c [success] # rest,
                       if w then Some (newPlayer (uint (m ! 0)) c) else None)
                  \<and> conn (players s' ! unat (m ! 0)) = Some c
                  \<and> currentNumPlayers s' = currentNumPlayers s + 1
                  \<and> WriteMessage c [failure] \<notin> set rest))"
proof (intro conjI impI)
  assume "numPlayers s \<le> currentNumPlayers s \<or> 0 < round s"
  then show "\<exists>line. serveWs_accept s up c rd w = (s, [HttpError line 403], None)"
    by (auto simp: serveWs_accept_def)
next
  assume "\<not> numPlayers s \<le> currentNumPlayers s \<and> \<not> 0 < round s \<and> (\<not> up \<or> rd = None)"
  then show "serveWs_accept s up c rd w = (s, [LogErr ConnError], None)"
    by (auto simp: serveWs_accept_def initialisePlayer_def)
next
  assume a: "\<not> numPlayers s \<le> currentNumPlayers s \<and> \<not> 0 < round s \<and> up \<and> rd = Some m"
  show "if length m \<noteq> 1 \<or> 5 < m ! 0 \<or> \<not> isEmpty (players s ! unat (m ! 0))
             then \<exists>e. serveWs_accept s up c rd w = (s, [WriteMessage c [failure], LogErr e], None)
             else \<exists>s' rest. serveWs_accept s up c rd w =
                      (s', WriteMessage c [success] # rest,
                       if w then Some (newPlayer (uint (m ! 0)) c) else None)
                  \<and> conn (players s' ! unat (m ! 0)) = Some c
                  \<and> currentNumPlayers s' = currentNumPlayers s + 1
                  \<and> WriteMessage c [failure] \<notin> set rest"
  proof (cases "length m \<noteq> 1 \<or> 5 < m ! 0 \<or> \<not> isEmpty (players s ! unat (m ! 0))")
    case True
    from initialisePlayer_reject [OF True, of c w] a True show ?thesis
      by (auto simp: serveWs_accept_def)
  next
    case False
    then have f: "length m = 1" "\<not> 5 < m ! 0" "isEmpty (players s ! unat (m ! 0))"
      by auto
    from f(2) assms have i: "unat (m ! 0) < length (players s)"
      by (simp add: byte_le_5)
    have np: "conn (newPlayer (uint (m ! 0)) c) = Some c"
      by (simp add: newPlayer_def)
    from initialisePlayer_admit [OF f, of c w] a False i np show ?thesis
      by (auto simp: serveWs_accept_def nextRound_def resetPlayer_def)
  qed
qed

theorem handshake_outcomes_witness:
  "length (players (newServer 2)) = maxPlayers
   \<and> \<not> numPlayers (newServer 2) \<le> currentNumPlayers (newServer 2)
   \<and> \<not> 0 < round (newServer 2)
   \<and> (\<exists>e. serveWs_accept (newServer 2) True 1 (Some [6]) True
             = (newServer 2, [WriteMessage 1 [failure], LogErr e], None))
   \<and> (\<exists>s' rest. serveWs_accept (newServer 2) True 1 (Some [0]) True =
                      (s', WriteMessage 1 [success] # rest, Some (newPlayer 0 1))
                  \<and> conn (players s' ! 0) = Some 1
                  \<and> currentNumPlayers s' = 1)
   \<and> numPlayers roundOne \<le> currentNumPlayers roundOne
   \<and> (\<exists>line. serveWs_accept roundOne True 3 (Some [1]) True = (roundOne, [HttpError line 403], None))"
proof -
  have h: "length (players (newServer 2)) = maxPlayers"
    by (simp add: newServer_def)
  have h': "length (players roundOne) = maxPlayers"
    by (simp add: roundOne_eq maxPlayers_def)
  have g: "\<not> numPlayers (newServer 2) \<le> currentNumPlayers (newServer 2)"
    "\<not> 0 < round (newServer 2)" "currentNumPlayers (newServer 2) = 0"
    by (simp_all add: newServer_def)
  have e: "isEmpty (players (newServer 2) ! 0)"
    by (simp add: newServer_def maxPlayers_def isEmpty_def zeroPlayer_def)
  have full: "numPlayers roundOne \<le> currentNumPlayers roundOne"
    by (simp add: roundOne_eq)
  from handshake_outcomes [OF h, of True 1 "Some [6]" True "[6]"] g
  have 1: "\<exists>e. serveWs_accept (newServer 2) True 1 (Some [6]) True
             = (newServer 2, [WriteMessage 1 [failure], LogErr e], None)"
    by simp
  from handshake_outcomes [OF h, of True 1 "Some [0]" True "[0]"] g e
  have 2: "\<exists>s' rest. serveWs_accept (newServer 2) True 1 (Some [0]) True =
                      (s', WriteMessage 1 [success] # rest, Some (newPlayer 0 1))
                  \<and> conn (players s' ! 0) = Some 1
                  \<and> currentNumPlayers s' = 1"
    by simp blast
  from handshake_outcomes [OF h', of True 3 "Some [1]" True "[1]"] full
  have 3: "\<exists>line. serveWs_accept roundOne True 3 (Some [1]) True = (roundOne, [HttpError line 403], None)"
    by blast
  from h g 1 2 3 full show ?thesis by blast
qed

text \<open>
  The claim as stated (failure byte on every rejection) fails: with the lobby
  of the two-player game full, a third request is answered with the HTTP
  error alone.
\<close>

theorem full_lobby_no_failure_byte_counterexample:
  "numPlayers roundOne \<le> currentNumPlayers roundOne
   \<and> serveWs_accept roundOne True 3 (Some [1]) True
       = (roundOne, [HttpError ''Lobby is full'' 403], None)"
  by (simp add: serveWs_accept_def roundOne_eq)

text \<open>
  Claim C10 does not hold of the code: when the write of the success byte
  fails, \<^verbatim>\<open>initialisePlayer\<close> returns an error after it has stored the player,
  and \<^verbatim>\<open>serveWs\<close> returns without the receive loop and without undoing the
  registration. On a fresh server the slot stays occupied and the live count
  stays at 1.
\<close>

theorem failed_success_write_keeps_slot:
  "fst (snd (snd (initialisePlayer (newServer 2) 1 (Some [0]) False))) = Some ConnError
   \<and> snd (snd (serveWs_accept (newServer 2) True 1 (Some [0]) False)) = None
   \<and> conn (players (fst (serveWs_accept (newServer 2) True 1 (Some [0]) False)) ! 0) = Some 1
   \<and> currentNumPlayers (fst (serveWs_accept (newServer 2) True 1 (Some [0]) False)) = 1
   \<and> conn (players (newServer 2) ! 0) = None
   \<and> currentNumPlayers (newServer 2) = 0"
  by code_simp

text \<open>
  The handshake message of this run passes both checks of
  \<^verbatim>\<open>initialisePlayer\<close>, and the slot, free before, is occupied afterwards.
\<close>

theorem failed_success_write_keeps_slot_witness:
  "length [0::byte] = 1 \<and> \<not> 5 < [0::byte] ! 0
   \<and> isEmpty (players (newServer 2) ! unat ([0::byte] ! 0))
   \<and> \<not> isEmpty (players (fst (serveWs_accept (newServer 2) True 1 (Some [0]) False)) ! 0)"
  using failed_success_write_keeps_slot
  by (simp add: isEmpty_def)

subsection \<open>Disconnect\<close>

text \<open>
  Claim C6 does not hold of the code. A read error that is a close of the
  two kinds leaves the loop, and the code after the loop resets the slot,
  decrements the count and broadcasts PlayerDisconnect. Any other read error
  is logged and followed by \<^verbatim>\<open>continue\<close>; the connection has only that error
  left to return, so the loop logs it another 998 times and ends in the
  library's panic on the 1000th read. The code after the loop is not reached:
  player 0 of the two-player game keeps slot 0, the count stays 2 and no
  PlayerDisconnect is broadcast.
\<close>

theorem failed_read_never_cleans_up:
  "serveWs_iteration roundOne player0 (ReadError False) True
       = Inr (roundOne, [LogErr ConnError], LoopReadFailed)
   \<and> serveWs_failed 1 = (replicate 998 (LogErr ConnError), RepeatedReadPanic)
   \<and> serveWs_loop roundOne player0 ((ReadError False, True) # rs) = Inl RepeatedReadPanic
   \<and> conn (players roundOne ! 0) = Some 1
   \<and> currentNumPlayers roundOne = 2
   \<and> serveWs_loop roundOne player0 [(ReadError True, True)]
       = Inr (roundOne\<lparr>players := (players roundOne)[0 := zeroPlayer],
                      currentNumPlayers := 1\<rparr>,
              [Broadcast [playerDisconnectHeader, 0]], True)"
proof -
  have "serveWs_failed 1 = (replicate 998 (LogErr ConnError), RepeatedReadPanic)"
    using serveWs_failed_eq [of 1] by (simp add: readErrLimit_def)
  moreover have "serveWs_loop roundOne player0 [(ReadError True, True)]
       = Inr (roundOne\<lparr>players := (players roundOne)[0 := zeroPlayer],
                      currentNumPlayers := 1\<rparr>,
              [Broadcast [playerDisconnectHeader, 0]], True)"
    by (simp add: serveWs_iteration_def serveWs_disconnect_def index_ok_def player0_def
        newPlayer_def maxPlayers_def roundOne_eq)
  moreover have "conn (players roundOne ! 0) = Some 1" "currentNumPlayers roundOne = 2"
    by (simp_all add: roundOne_eq)
  ultimately show ?thesis
    by (simp add: read_failed_panics serveWs_iteration_def)
qed

theorem failed_read_never_cleans_up_witness:
  "isl (serveWs_loop roundOne player0 [(ReadError False, True), (ReadError True, True)])
   \<and> \<not> isl (serveWs_loop roundOne player0 [(ReadError True, True)])
   \<and> \<not> isEmpty (players roundOne ! 0)"
  using failed_read_never_cleans_up [of "[(ReadError True, True)]"]
  by (simp add: isEmpty_def)

subsection \<open>Malformed messages\<close>

text \<open>
  Claim C7, as the code has it. An empty message, a Hit message whose length
  is not 3, a Location message whose length is not 4 and a message whose first
  byte is none of the three kinds are logged and dropped: the state is
  unchanged, the log line is the only output and the loop goes on. (A Shot
  message is not checked for its length, see \<open>shot_not_length_checked\<close>.)
\<close>

theorem malformed_message_dropped:
  assumes "message = []
       \<or> message ! 0 = hitMessage \<and> length message \<noteq> 3
       \<or> message ! 0 = locationMessage \<and> length message \<noteq> 4
       \<or> message ! 0 \<notin> {hitMessage, shotMessage, locationMessage}"
  shows "\<exists>line. serveWs_message s np message w = Inr (s, [Log line])
            \<and> serveWs_loop s np [(ReadMessage message, w)] = Inr (s, [Log line], False)"
  using assms
  by (auto simp: serveWs_message_def serveWs_iteration_def hitMessage_def shotMessage_def
      locationMessage_def)

theorem malformed_message_dropped_witness:
  "[hitMessage, 3] ! 0 = hitMessage \<and> length [hitMessage, 3::byte] \<noteq> 3
   \<and> serveWs_message roundOne player0 [hitMessage, 3] True
       = Inr (roundOne, [Log ''Incorrect message size for hit message''])
   \<and> serveWs_loop roundOne player0 [(ReadMessage [hitMessage, 3], True)]
       = Inr (roundOne, [Log ''Incorrect message size for hit message''], False)"
proof -
  have h: "[hitMessage, 3] ! 0 = hitMessage \<and> length [hitMessage, 3::byte] \<noteq> 3"
    by simp
  then have "[hitMessage, 3] = []
       \<or> [hitMessage, 3] ! 0 = hitMessage \<and> length [hitMessage, 3::byte] \<noteq> 3
       \<or> [hitMessage, 3] ! 0 = locationMessage \<and> length [hitMessage, 3::byte] \<noteq> 4
       \<or> [hitMessage, 3] ! 0 \<notin> {hitMessage, shotMessage, locationMessage}"
    by blast
  from malformed_message_dropped [OF this, of roundOne player0 True]
  obtain line where t: "serveWs_message roundOne player0 [hitMessage, 3] True = Inr (roundOne, [Log line])"
    and lp: "serveWs_loop roundOne player0 [(ReadMessage [hitMessage, 3], True)] = Inr (roundOne, [Log line], False)"
    by blast
  have "serveWs_message roundOne player0 [hitMessage, 3] True
       = Inr (roundOne, [Log ''Incorrect message size for hit message''])"
    by (simp add: serveWs_message_def)
  with t have "line = ''Incorrect message size for hit message''"
    by simp
  with t lp h show ?thesis by simp
qed

text \<open>
  The claim as stated (every message with a wrong payload length is dropped)
  fails for Shot, which has no payload: a Shot message with one extra byte is
  broadcast like any other.
\<close>

theorem shot_with_payload_counterexample:
  "serveWs_message roundOne player0 [shotMessage, 99] True = Inr (roundOne, [Broadcast [shotHeader, 0]])"
  by (simp add: serveWs_message_def hitMessage_def shotMessage_def player0_def newPlayer_def)

subsection \<open>Location snapshots\<close>

text \<open>
  Claim C8. In every state the server reaches from its start, the ticker
  writes a message to a connection only when the round counter is above 0,
  then exactly to the connections of the occupied slots and always the frame
  of \<^verbatim>\<open>serialiseLocations\<close>; while the counter is 0 it does nothing. The frame
  is the Locations header byte followed by the four bytes (id, x, y, z) of
  each occupied slot in slot order, nothing for an empty slot, and the id byte
  of an occupied slot is the index of the slot.
\<close>

theorem snapshot_only_in_rounds:
  assumes "exec (newServer n) evs = Inr (s, out)"
  shows "(\<forall>c m. (WriteMessage c m \<in> set (run_ticker fails s)) =
            (0 < round s \<and> m = serialiseLocations s \<and> (\<exists>p \<in> set (players s). conn p = Some c)))
      \<and> (round s = 0 \<longrightarrow> run_ticker fails s = [])
      \<and> serialiseLocations s =
           locationsHeader # concat (map locationParcel (filter (\<lambda>p. \<not> isEmpty p) (players s)))
      \<and> length (players s) = maxPlayers
      \<and> (\<forall>i < maxPlayers. \<not> isEmpty (players s ! i) \<longrightarrow>
            locationParcel (players s ! i) =
              [of_nat i, x_p (players s ! i), y_p (players s ! i), z_p (players s ! i)])"
proof -
  from exec_inv(1) [OF assms] have r: "0 \<le> round s"
    by simp
  from exec_inv(2) [OF assms slots_ok_newServer] have ok: "slots_ok s" .
  from r have 1: "\<forall>c m. (WriteMessage c m \<in> set (run_ticker fails s)) =
            (0 < round s \<and> m = serialiseLocations s \<and> (\<exists>p \<in> set (players s). conn p = Some c))"
    by (auto simp: run_ticker_def writeAll_writes)
  have 2: "round s = 0 \<longrightarrow> run_ticker fails s = []"
    by (simp add: run_ticker_def)
  have 3: "serialiseLocations s =
           locationsHeader # concat (map locationParcel (filter (\<lambda>p. \<not> isEmpty p) (players s)))"
    by (simp add: serialiseLocations_def writeParcels_eq)
  from ok have 4: "length (players s) = maxPlayers"
    by (simp add: slots_ok_iff)
  from ok have 5: "\<forall>i < maxPlayers. \<not> isEmpty (players s ! i) \<longrightarrow>
            locationParcel (players s ! i) =
              [of_nat i, x_p (players s ! i), y_p (players s ! i), z_p (players s ! i)]"
    by (simp add: slots_ok_parcel)
  from 1 2 3 4 5 show ?thesis by blast
qed

theorem snapshot_only_in_rounds_witness:
  "exec (newServer 2) (twoPlayerLobby @ [move0]) =
      Inr (roundOne\<lparr>players := (players roundOne)[0 := (players roundOne ! 0)\<lparr>x_p := 8, y_p := 16, z_p := 248\<rparr>]\<rparr>,
           [WriteMessage 1 [success], WriteMessage 2 [success],
            Broadcast [nextRoundHeader], AfterFunc roundStartGraceTime PlayTimer])
   \<and> serialiseLocations (roundOne\<lparr>players := (players roundOne)[0 := (players roundOne ! 0)\<lparr>x_p := 8, y_p := 16, z_p := 248\<rparr>]\<rparr>)
       = [locationsHeader, 0, 8, 16, 248, 3, 0, 0, 0]
   \<and> WriteMessage 2 [locationsHeader, 0, 8, 16, 248, 3, 0, 0, 0]
       \<in> set (run_ticker (\<lambda>c. False) (roundOne\<lparr>players := (players roundOne)[0 := (players roundOne ! 0)\<lparr>x_p := 8, y_p := 16, z_p := 248\<rparr>]\<rparr>))"
proof -
  let ?s = "roundOne\<lparr>players := (players roundOne)[0 := (players roundOne ! 0)\<lparr>x_p := 8, y_p := 16, z_p := 248\<rparr>]\<rparr>"
  have e: "exec (newServer 2) (twoPlayerLobby @ [move0]) =
      Inr (?s, [WriteMessage 1 [success], WriteMessage 2 [success],
            Broadcast [nextRoundHeader], AfterFunc roundStartGraceTime PlayTimer])"
    unfolding roundOne_eq by code_simp
  note t = snapshot_only_in_rounds [OF e, of "\<lambda>c. False"]
  have sl: "serialiseLocations ?s = [locationsHeader, 0, 8, 16, 248, 3, 0, 0, 0]"
    by (simp add: roundOne_eq serialiseLocations_def isEmpty_def locationParcel_def)
  have r: "0 < round ?s" by (simp add: roundOne_eq)
  have c: "\<exists>p \<in> set (players ?s). conn p = Some 2"
    by (simp add: roundOne_eq)
  from t r c have "WriteMessage 2 (serialiseLocations ?s) \<in> set (run_ticker (\<lambda>c. False) ?s)"
    by blast
  with e sl show ?thesis by simp
qed

subsection \<open>Panics of the Hit handler\<close>

text \<open>
  Claim C9 does not hold of the code: the target byte of a Hit message is
  used as an index without a check. In any state a Hit on target 6 stops with
  an index out of range, and in round 1 of the two-player game a Hit on the
  empty slot 1 stops with a nil dereference in the health-loss write.
\<close>

theorem hit_on_bad_target_panics:
  "serveWs_message s np [hitMessage, 6, dmg] w = Inl IndexOutOfRange
   \<and> serveWs_message roundOne np [hitMessage, 1, dmg] w = Inl NilPointerDereference"
  by (simp add: hit_message_is_hit serveWs_hit_def serveWs_hit_locked_def index_ok_def
      maxPlayers_def roundOne_eq)

end
